theory Spec2Isabelle
  imports Main "HOL-Library.Log_Nat" "HOL-Library.Sublist"
begin

section \<open>The ServiceNow alert service (services/servicenow/service.go)\<close>

text \<open>
  A shallow embedding of the Go package \<^verbatim>\<open>servicenow\<close>. Go strings are byte sequences, so
  a Go string is a \<^typ>\<open>string\<close> (a list of 8-bit characters) and \<^verbatim>\<open>len\<close> is
  \<^const>\<open>length\<close>. A Go \<^verbatim>\<open>int\<close> is an \<^typ>\<open>int\<close>; the only arithmetic on it is the
  conversion to \<^verbatim>\<open>float64\<close> in \<^verbatim>\<open>cutoff\<close>, which is written out below.
\<close>

subsection \<open>Errors\<close>

text \<open>
  A Go \<^verbatim>\<open>error\<close> value: \<open>New msg\<close> is what \<^verbatim>\<open>errors.New\<close> and \<^verbatim>\<open>fmt.Errorf\<close> build (and
  what the libraries hand back), \<open>Wrap err msg\<close> is \<^verbatim>\<open>errors.Wrap(err, msg)\<close>. A run-time
  panic is not a returned value in Go; it unwinds through every caller, which the model
  writes as the result \<open>Panic msg\<close> passed along unchanged.
\<close>

datatype error = New string | Wrap error string | Panic string


subsection \<open>Decimal formatting (\<^verbatim>\<open>strconv.Itoa\<close>, the verb \<^verbatim>\<open>%d\<close>)\<close>

definition digit :: "nat \<Rightarrow> char" where
  "digit d = ''0123456789'' ! d"

fun digits :: "nat \<Rightarrow> string" where
  "digits n = (if n < 10 then [digit n] else digits (n div 10) @ [digit (n mod 10)])"

definition Itoa :: "int \<Rightarrow> string" where
  "Itoa i = (if i < 0 then CHR ''-'' # digits (nat (- i)) else digits (nat i))"

subsection \<open>Configuration, handler options and the alert record\<close>

text \<open>
  Modelled from the spec: the struct \<^verbatim>\<open>Config\<close> is declared in config.go, which is not
  among the sources. Its fields are the seven of the spec's data model; service.go reads
  each of them (\<^verbatim>\<open>c.Enabled\<close>, \<^verbatim>\<open>c.URL\<close>, \<^verbatim>\<open>c.Username\<close>, \<^verbatim>\<open>c.Password\<close>, \<^verbatim>\<open>c.Source\<close>,
  \<^verbatim>\<open>c.Global\<close>, \<^verbatim>\<open>c.StateChangesOnly\<close>).
\<close>

record Config =
  Enabled :: bool
  URL :: string
  Username :: string
  Password :: string
  Source :: string
  Global :: bool
  StateChangesOnly :: bool

record HandlerConfig =
  URL :: string
  Username :: string
  Password :: string
  Source :: string
  Node :: string
  Type :: string
  Resource :: string
  MetricName :: string
  MessageKey :: string

record Alert =
  Source :: string
  Node :: string
  Type :: string
  Resource :: string
  MetricName :: string
  MessageKey :: string
  Severity :: string
  Description :: string

text \<open>
  A value of type \<^verbatim>\<open>interface{}\<close> with its dynamic type: a \<^verbatim>\<open>Config\<close>, a few basic types,
  and \<open>AnyOther t\<close> for a value of any other dynamic type, \<open>t\<close> being the name that the
  verb \<^verbatim>\<open>%T\<close> prints for it (\<^verbatim>\<open><nil>\<close> for the nil interface).
\<close>

datatype any = AnyConfig Config | AnyString string | AnyInt int | AnyBool bool | AnyOther string

fun typeName :: "any \<Rightarrow> string" where
  "typeName (AnyConfig c) = ''servicenow.Config''"
| "typeName (AnyString s) = ''string''"
| "typeName (AnyInt i) = ''int''"
| "typeName (AnyBool b) = ''bool''"
| "typeName (AnyOther t) = t"

text \<open>
  Modelled from the spec: \<^verbatim>\<open>alert.Level\<close> and \<^verbatim>\<open>alert.EventData\<close> are declared in the package
  \<^verbatim>\<open>alert\<close>, which is not among the sources. The level is the spec's enumeration OK, Info,
  Warning, Critical; \<open>Unknown n\<close> stands for any other value of the underlying integer
  type. The event data has the four fields that \<^verbatim>\<open>preparePost\<close> copies.
\<close>

datatype Level = OK | Info | Warning | Critical | Unknown int

record EventData =
  Name :: string
  TaskName :: string
  Fields :: "string \<rightharpoonup> any"
  Tags :: "string \<rightharpoonup> string"

record dataInfo =
  ID :: string
  Name :: string
  TaskName :: string
  Fields :: "string \<rightharpoonup> any"
  Tags :: "string \<rightharpoonup> string"

subsection \<open>The service and its configuration\<close>

text \<open>
  \<^verbatim>\<open>Service.configValue\<close> is an \<^verbatim>\<open>atomic.Value\<close> that only ever holds a \<^verbatim>\<open>Config\<close>:
  \<^verbatim>\<open>NewService\<close> and \<^verbatim>\<open>Update\<close> are its only writers. The diagnostic handle takes no part
  in what follows and is left out.
\<close>

record Service =
  configValue :: Config

definition NewService :: "Config \<Rightarrow> Service" where
  "NewService c = \<lparr>configValue = c\<rparr>"

definition config :: "Service \<Rightarrow> Config" where
  "config s = configValue s"

definition Update :: "Service \<Rightarrow> any list \<Rightarrow> error option \<times> Service" where
  "Update s newConfig =
     (let l = length newConfig in
      if l \<noteq> 1 then
        (Some (New (''expected only one new config object, got '' @ Itoa (int l))), s)
      else
        (case newConfig ! 0 of
           AnyConfig c \<Rightarrow> (None, s\<lparr>configValue := c\<rparr>)
         | v \<Rightarrow>
             (Some (New (''expected config object to be of type '' @ ''servicenow.Config''
                          @ '', got '' @ typeName v)), s)))"

definition Global :: "Service \<Rightarrow> bool" where
  "Global s = Config.Global (config s)"

definition StateChangesOnly :: "Service \<Rightarrow> bool" where
  "StateChangesOnly s = Config.StateChangesOnly (config s)"

subsection \<open>Truncation: the closure \<^verbatim>\<open>cutoff\<close> of \<^verbatim>\<open>preparePost\<close>\<close>

definition usualCutoff :: int where
  "usualCutoff = 100"

text \<open>
  \<^verbatim>\<open>float64(n)\<close> for a Go integer \<open>n\<close>, as the integer that the resulting float denotes:
  \<open>n\<close> itself when it has at most 53 significant bits, otherwise \<open>n\<close> rounded to 53
  significant bits, ties to even (IEEE 754 round-to-nearest). No infinity or NaN arises
  from a 64-bit integer.
\<close>

definition float64 :: "int \<Rightarrow> int" where
  "float64 n =
     (let a = \<bar>n\<bar>; e = bitlen a - 53 in
      if e \<le> 0 then n
      else
        (let sh = nat e;
             q = a div 2 ^ sh;
             r = a mod 2 ^ sh;
             half = 2 ^ (sh - 1);
             q' = (if half < r \<or> (r = half \<and> odd q) then q + 1 else q)
         in sgn n * (q' * 2 ^ sh)))"

definition math_Min :: "int \<Rightarrow> int \<Rightarrow> int" where
  "math_Min x y = min x y"

text \<open>
  \<^verbatim>\<open>text[:int(math.Min(float64(max), float64(len(text))))]\<close>. The slice expression panics
  unless its bound lies between 0 and the length of the string.
\<close>

definition cutoff :: "string \<Rightarrow> int \<Rightarrow> error + string" where
  "cutoff text' max' =
     (let hi = math_Min (float64 max') (float64 (int (length text'))) in
      if 0 \<le> hi \<and> hi \<le> int (length text') then Inr (take (nat hi) text')
      else Inl (Panic ''slice bounds out of range''))"

subsection \<open>The severity switch of \<^verbatim>\<open>preparePost\<close>\<close>

text \<open>
  \<^verbatim>\<open>severity := 0\<close>, then the \<^verbatim>\<open>switch\<close> on the level: the case OK falls through to the
  case Info; a level that matches no case leaves the initial value.
\<close>

definition severity :: "Level \<Rightarrow> int" where
  "severity level =
     (let severity0 = 0 in
      if level = OK \<or> level = Info then 5
      else if level = Warning then 4
      else if level = Critical then 1
      else severity0)"

subsection \<open>The libraries the service calls\<close>

text \<open>
  An HTTP request as \<^verbatim>\<open>Alert\<close> builds it. \<^verbatim>\<open>SetBasicAuth\<close> is kept as a field of its
  own (the credentials it was given) instead of the encoded \<^verbatim>\<open>Authorization\<close> header.
  A response is its status code and what reading its body to the end gives: the bytes,
  or the I/O error of the read.
\<close>

record Request =
  Method :: string
  URL :: string
  Header :: "(string \<times> string) list"
  BasicAuth :: "(string \<times> string) option"
  Body :: string

record Response =
  StatusCode :: int
  Body :: "error + string"

text \<open>
  The standard library and the network are parameters of the model, one field for each
  call of service.go:
  \<^item> \<open>url_Parse\<close>, \<open>url_String\<close>: \<^verbatim>\<open>neturl.Parse\<close> and the method \<^verbatim>\<open>String\<close> of the parsed URL;
  \<^item> \<open>template_Parse name src\<close>: \<^verbatim>\<open>text.New(name).Parse(src)\<close>;
  \<^item> \<open>template_Execute t d\<close>: \<^verbatim>\<open>t.Execute(&buffer, &d)\<close>, as the bytes it appends to the
    buffer and the error it returns (\<open>None\<close> for nil);
  \<^item> \<open>json_escape\<close>: the JSON encoding of a string that holds a byte the encoder does not
    copy as it is (see \<open>json_string\<close>);
  \<^item> \<open>http_NewRequest_error method url\<close>: the error with which \<^verbatim>\<open>http.NewRequest\<close>
    rejects its arguments, if it does;
  \<^item> \<open>client_Do\<close>: \<^verbatim>\<open>client.Do\<close>, the round trip;
  \<^item> \<open>json_Decode body\<close>: what \<^verbatim>\<open>dec.Decode(r)\<close> stores into the field \<^verbatim>\<open>Error\<close> of the
    struct \<^verbatim>\<open>response\<close> when it reads \<open>body\<close>, \<open>None\<close> when it stores nothing (the body
    is not JSON, or it has no string member \<^verbatim>\<open>error\<close>). The value \<^verbatim>\<open>Decode\<close> returns is
    dropped by the source, so this is all that the call does.
\<close>

record ('u, 't) Env =
  url_Parse :: "string \<Rightarrow> error + 'u"
  url_String :: "'u \<Rightarrow> string"
  template_Parse :: "string \<Rightarrow> string \<Rightarrow> error + 't"
  template_Execute :: "'t \<Rightarrow> dataInfo \<Rightarrow> string \<times> error option"
  json_escape :: "string \<Rightarrow> string"
  http_NewRequest_error :: "string \<Rightarrow> string \<Rightarrow> error option"
  client_Do :: "Request \<Rightarrow> error + Response"
  json_Decode :: "string \<Rightarrow> string option"

text \<open>
  The calls that leave the service, in the order they are made. \<open>HttpDo\<close> carries the
  request that is sent.
\<close>

datatype call =
    UrlParse string
  | TemplateParse string string
  | TemplateExecute string
  | HttpDo Request
  | ReadAll
  | BodyClose

subsection \<open>Serialising the alert (\<^verbatim>\<open>json.Marshal\<close> on the struct \<^verbatim>\<open>Alert\<close>)\<close>

text \<open>
  \<^verbatim>\<open>encoding/json\<close> copies a byte of a string as it is when the byte is printable ASCII
  other than the double quote, the backslash and the three characters it escapes for
  HTML; a string of such bytes is encoded as itself between double quotes. Any other
  string is left to \<open>json_escape\<close>. The object has the keys of the struct tags, in the
  order of the fields, and marshalling a struct of strings does not fail.
\<close>

definition htmlSafe :: "char \<Rightarrow> bool" where
  "htmlSafe b =
     (32 \<le> (of_char b :: nat) \<and> (of_char b :: nat) < 128 \<and> b \<noteq> CHR 0x22 \<and> b \<noteq> CHR 0x5C
      \<and> b \<noteq> CHR ''<'' \<and> b \<noteq> CHR ''>'' \<and> b \<noteq> CHR ''&'')"

definition json_string :: "('u, 't) Env \<Rightarrow> string \<Rightarrow> string" where
  "json_string env s =
     (if list_all htmlSafe s then CHR 0x22 # s @ [CHR 0x22] else json_escape env s)"

definition json_Marshal :: "('u, 't) Env \<Rightarrow> Alert \<Rightarrow> error + string" where
  \<open>json_Marshal env a =
     Inr (''{"source":'' @ json_string env (Alert.Source a)
          @ '',"node":'' @ json_string env (Alert.Node a)
          @ '',"type":'' @ json_string env (Alert.Type a)
          @ '',"resource":'' @ json_string env (Alert.Resource a)
          @ '',"metric_name":'' @ json_string env (Alert.MetricName a)
          @ '',"message_key":'' @ json_string env (Alert.MessageKey a)
          @ '',"severity":'' @ json_string env (Alert.Severity a)
          @ '',"description":'' @ json_string env (Alert.Description a)
          @ ''}'')\<close>

subsection \<open>Rendering: the closure \<^verbatim>\<open>render\<close> of \<^verbatim>\<open>preparePost\<close>\<close>

text \<open>
  The closure works on the one \<^verbatim>\<open>bytes.Buffer\<close> of \<^verbatim>\<open>preparePost\<close>; the state it threads
  is that buffer and the calls made so far. After \<^verbatim>\<open>Parse\<close> has succeeded, \<open>err\<close> is nil;
  the source calls \<^verbatim>\<open>Execute\<close> without assigning what it returns, and then tests \<open>err\<close>
  once more.
\<close>

record rstate =
  buffer :: string
  calls :: "call list"

definition render ::
  "('u, 't) Env \<Rightarrow> dataInfo \<Rightarrow> string \<Rightarrow> string \<Rightarrow> rstate \<Rightarrow> (error + string) \<times> rstate" where
  "render env dataInfo' name template' st =
     (if template' \<noteq> [] then
        (let st1 = st\<lparr>buffer := []\<rparr>;
             st2 = st1\<lparr>calls := calls st1 @ [TemplateParse name template']\<rparr>
         in case template_Parse env name template' of
              Inl err \<Rightarrow> (Inl err, st2)
            | Inr templateImpl \<Rightarrow>
                (let err = (None :: error option);
                     written = fst (template_Execute env templateImpl dataInfo');
                     st3 = st2\<lparr>buffer := buffer st2 @ written,
                               calls := calls st2 @ [TemplateExecute name]\<rparr>
                 in case err of
                      Some e \<Rightarrow> (Inl e, st3)
                    | None \<Rightarrow> (Inr (buffer st3), st3)))
      else (Inr [], st))"

text \<open>
  The value that \<open>render\<close> returns, started on a fresh buffer. The buffer is reset before
  it is written, so the value is the same from every state (lemma \<open>render_fst\<close> below).
\<close>

definition rendered :: "('u, 't) Env \<Rightarrow> dataInfo \<Rightarrow> string \<Rightarrow> string \<Rightarrow> error + string" where
  "rendered env dataInfo' name template' =
     fst (render env dataInfo' name template' \<lparr>buffer = [], calls = []\<rparr>)"

subsection \<open>\<^verbatim>\<open>preparePost\<close>\<close>

text \<open>The struct literal \<^verbatim>\<open>dataInfo{...}\<close>: the alert identifier and the event data.\<close>

definition newDataInfo :: "string \<Rightarrow> EventData \<Rightarrow> dataInfo" where
  "newDataInfo alertID data =
     \<lparr>ID = alertID, Name = EventData.Name data, TaskName = EventData.TaskName data,
      Fields = EventData.Fields data, Tags = EventData.Tags data\<rparr>"

definition and_then :: "error + 'a \<Rightarrow> ('a \<Rightarrow> error + 'b) \<Rightarrow> error + 'b" where
  "and_then r f = (case r of Inl err \<Rightarrow> Inl err | Inr x \<Rightarrow> f x)"

text \<open>
  The struct literal \<^verbatim>\<open>&Alert{...}\<close>: its field values are computed in the order they are
  written, and a panic in one of them ends the call.
\<close>

definition newAlert ::
  "string \<Rightarrow> string \<Rightarrow> string \<Rightarrow> string \<Rightarrow> string \<Rightarrow> string \<Rightarrow> int \<Rightarrow> string \<Rightarrow> error + Alert" where
  "newAlert source node metricType resource metricName messageKey severity' message =
     and_then (cutoff source usualCutoff) (\<lambda>f1.
     and_then (cutoff node usualCutoff) (\<lambda>f2.
     and_then (cutoff metricType usualCutoff) (\<lambda>f3.
     and_then (cutoff resource usualCutoff) (\<lambda>f4.
     and_then (cutoff metricName usualCutoff) (\<lambda>f5.
     and_then (cutoff messageKey 1024) (\<lambda>f6.
     and_then (cutoff message 4000) (\<lambda>f8.
       Inr \<lparr>Alert.Source = f1, Alert.Node = f2, Alert.Type = f3, Alert.Resource = f4,
            Alert.MetricName = f5, Alert.MessageKey = f6, Severity = Itoa severity',
            Description = f8\<rparr>)))))))"

text \<open>
  Lines 166 to 260 of service.go: everything up to the alert record \<^verbatim>\<open>instance\<close>. The
  result is the parsed URL with the record, or the error returned, and the calls made.
  The parameters \<^verbatim>\<open>data\<close> and \<^verbatim>\<open>hc\<close> are pointers; both callers (\<^verbatim>\<open>Test\<close> and \<^verbatim>\<open>Handle\<close>)
  pass the address of a struct, so they are the structs themselves here.
\<close>

definition preparePost_instance ::
  "('u, 't) Env \<Rightarrow> Service \<Rightarrow> string \<Rightarrow> string \<Rightarrow> string \<Rightarrow> Level \<Rightarrow> EventData \<Rightarrow> HandlerConfig
     \<Rightarrow> (error + 'u \<times> Alert) \<times> call list" where
  "preparePost_instance env s url alertID message level data hc =
     (let c = config s in
      if \<not> Enabled c then (Inl (New ''service is not enabled''), [])
      else
        (let url' = (if url = [] then Config.URL c else url) in
         case url_Parse env url' of
           Inl err \<Rightarrow> (Inl err, [UrlParse url'])
         | Inr u \<Rightarrow>
        (let source = (if HandlerConfig.Source hc = [] then Config.Source c
                       else HandlerConfig.Source hc);
             st0 = \<lparr>buffer = [], calls = [UrlParse url']\<rparr>;
             dataInfo' = newDataInfo alertID data
         in case render env dataInfo' ''node'' (HandlerConfig.Node hc) st0 of
           (Inl err, st1) \<Rightarrow> (Inl err, calls st1)
         | (Inr node, st1) \<Rightarrow>
        (case render env dataInfo' ''type'' (HandlerConfig.Type hc) st1 of
           (Inl err, st2) \<Rightarrow> (Inl err, calls st2)
         | (Inr metricType, st2) \<Rightarrow>
        (case render env dataInfo' ''resource'' (HandlerConfig.Resource hc) st2 of
           (Inl err, st3) \<Rightarrow> (Inl err, calls st3)
         | (Inr resource, st3) \<Rightarrow>
        (case render env dataInfo' ''metricName'' (HandlerConfig.MetricName hc) st3 of
           (Inl err, st4) \<Rightarrow> (Inl err, calls st4)
         | (Inr metricName, st4) \<Rightarrow>
        (case render env dataInfo' ''messageKey'' (HandlerConfig.MessageKey hc) st4 of
           (Inl err, st5) \<Rightarrow> (Inl err, calls st5)
         | (Inr messageKey, st5) \<Rightarrow>
        (let messageKey' = (if messageKey = [] then alertID else messageKey)
         in case newAlert source node metricType resource metricName messageKey'
                   (severity level) message of
              Inl err \<Rightarrow> (Inl err, calls st5)
            | Inr instance' \<Rightarrow> (Inr (u, instance'), calls st5)))))))))"

text \<open>Lines 262 to 267: marshalling, and the three values returned.\<close>

definition preparePost ::
  "('u, 't) Env \<Rightarrow> Service \<Rightarrow> string \<Rightarrow> string \<Rightarrow> string \<Rightarrow> Level \<Rightarrow> EventData \<Rightarrow> HandlerConfig
     \<Rightarrow> (error + string \<times> string) \<times> call list" where
  "preparePost env s url alertID message level data hc =
     (case preparePost_instance env s url alertID message level data hc of
        (Inl err, cs) \<Rightarrow> (Inl err, cs)
      | (Inr (u, instance'), cs) \<Rightarrow>
          (case json_Marshal env instance' of
             Inl err \<Rightarrow> (Inl (Wrap err ''error marshaling alert struct''), cs)
           | Inr postBytes \<Rightarrow> (Inr (url_String env u, postBytes), cs)))"

subsection \<open>\<^verbatim>\<open>Alert\<close>: the dispatch\<close>

definition NewRequest :: "('u, 't) Env \<Rightarrow> string \<Rightarrow> string \<Rightarrow> string \<Rightarrow> error + Request" where
  "NewRequest env method url body =
     (case http_NewRequest_error env method url of
        Some err \<Rightarrow> Inl err
      | None \<Rightarrow>
          Inr \<lparr>Method = method, Request.URL = url, Header = [], BasicAuth = None,
               Request.Body = body\<rparr>)"

definition Header_Add :: "Request \<Rightarrow> string \<Rightarrow> string \<Rightarrow> Request" where
  "Header_Add req key v = req\<lparr>Header := Header req @ [(key, v)]\<rparr>"

definition SetBasicAuth :: "Request \<Rightarrow> string \<Rightarrow> string \<Rightarrow> Request" where
  "SetBasicAuth req username password = req\<lparr>BasicAuth := Some (username, password)\<rparr>"

text \<open>
  Lines 131 to 148: what \<^verbatim>\<open>Alert\<close> returns for a response, with the calls on the body.
  The deferred \<^verbatim>\<open>resp.Body.Close()\<close> runs last on each path.
\<close>

definition checkResponse :: "('u, 't) Env \<Rightarrow> Response \<Rightarrow> error option \<times> call list" where
  "checkResponse env resp =
     (if StatusCode resp \<noteq> 201 then
        (case Response.Body resp of
           Inl err \<Rightarrow> (Some err, [ReadAll, BodyClose])
         | Inr body \<Rightarrow>
             (let r0 = ''failed to understand ServiceNow response. code: ''
                         @ Itoa (StatusCode resp) @ '' content: '' @ body;
                  r = (case json_Decode env body of Some e \<Rightarrow> e | None \<Rightarrow> r0)
              in (Some (New r), [ReadAll, BodyClose])))
      else (None, [BodyClose]))"

definition Alert ::
  "('u, 't) Env \<Rightarrow> Service \<Rightarrow> string \<Rightarrow> string \<Rightarrow> string \<Rightarrow> Level \<Rightarrow> EventData \<Rightarrow> HandlerConfig
     \<Rightarrow> error option \<times> call list" where
  "Alert env s url alertID message level data hc =
     (case preparePost env s url alertID message level data hc of
        (Inl err, cs) \<Rightarrow> (Some err, cs)
      | (Inr (postUrl, post), cs) \<Rightarrow>
          (case NewRequest env ''POST'' postUrl post of
             Inl err \<Rightarrow> (Some err, cs)
           | Inr req0 \<Rightarrow>
               (let req1 = Header_Add req0 ''Content-Type'' ''application/json'';
                    c = config s;
                    req = (if Config.Username c \<noteq> [] \<and> Config.Password c \<noteq> []
                           then SetBasicAuth req1 (Config.Username c) (Config.Password c)
                           else req1)
                in case client_Do env req of
                     Inl err \<Rightarrow> (Some err, cs @ [HttpDo req])
                   | Inr resp \<Rightarrow>
                       (case checkResponse env resp of
                          (r, cs') \<Rightarrow> (r, cs @ [HttpDo req] @ cs')))))"

subsection \<open>A stub of the libraries\<close>

text \<open>
  A request-counting stub transport with a small template engine, for running the
  service on concrete inputs: every URL parses to itself; the template \<^verbatim>\<open>{{\<close> does not
  compile; \<^verbatim>\<open>{{.ID}}-key\<close> prints the alert identifier and \<^verbatim>\<open>-key\<close>; \<^verbatim>\<open>{{.Missing}}\<close>
  fails at execution, the struct having no such field; any other template prints its own
  text. The transport answers every request with the given status and body.
\<close>

definition stub :: "int \<Rightarrow> error + string \<Rightarrow> (string, string) Env" where
  \<open>stub status body =
     \<lparr>url_Parse = (\<lambda>url. Inr url),
      url_String = (\<lambda>u. u),
      template_Parse = (\<lambda>name src.
        if src = ''{{'' then Inl (New ''template: unclosed action'') else Inr src),
      template_Execute = (\<lambda>t d.
        if t = ''{{.ID}}-key'' then (ID d @ ''-key'', None)
        else if t = ''{{.Missing}}'' then ([], Some (New ''template: can't evaluate field Missing''))
        else (t, None)),
      json_escape = (\<lambda>s. CHR 0x22 # s @ [CHR 0x22]),
      http_NewRequest_error = (\<lambda>method url. None),
      client_Do = (\<lambda>req. Inr \<lparr>StatusCode = status, Response.Body = body\<rparr>),
      json_Decode = (\<lambda>b. if b = ''{"error":"bad request"}'' then Some ''bad request'' else None)\<rparr>\<close>

subsection \<open>Observations and concrete inputs\<close>

text \<open>The HTTP requests among the calls, in the order they were sent.\<close>

fun requests :: "call list \<Rightarrow> Request list" where
  "requests [] = []"
| "requests (HttpDo req # cs) = req # requests cs"
| "requests (c # cs) = requests cs"

text \<open>
  The configuration of the spec's payload scenario (the fields it does not name have
  their zero values), the empty handler options and an event without data.
\<close>

definition cfg0 :: Config where
  "cfg0 = \<lparr>Enabled = True, Config.URL = ''https://sn.example/api'', Config.Username = [],
           Config.Password = [], Config.Source = ''cfg-src'', Global = False,
           StateChangesOnly = False\<rparr>"

definition hc0 :: HandlerConfig where
  "hc0 = \<lparr>HandlerConfig.URL = [], HandlerConfig.Username = [], HandlerConfig.Password = [],
          HandlerConfig.Source = [], HandlerConfig.Node = [], HandlerConfig.Type = [],
          HandlerConfig.Resource = [], HandlerConfig.MetricName = [],
          HandlerConfig.MessageKey = []\<rparr>"

definition data0 :: EventData where
  "data0 = \<lparr>EventData.Name = [], EventData.TaskName = [], EventData.Fields = Map.empty,
            EventData.Tags = Map.empty\<rparr>"

text \<open>The request that the payload scenario sends: no credentials are configured.\<close>

definition request0 :: Request where
  \<open>request0 =
     \<lparr>Method = ''POST'', Request.URL = ''https://sn.example/api'',
      Header = [(''Content-Type'', ''application/json'')], BasicAuth = None,
      Request.Body = ''{"source":"cfg-src","node":"","type":"","resource":"","metric_name":"","message_key":"a1","severity":"1","description":"boom"}''\<rparr>\<close>

section \<open>Properties\<close>

subsection \<open>Conversion to \<^verbatim>\<open>float64\<close> and truncation\<close>

lemma float64_exact: "\<bar>n\<bar> \<le> 2 ^ 53 \<Longrightarrow> float64 n = n"
proof (cases "\<bar>n\<bar> < 2 ^ 53")
  case True
  then have "bitlen \<bar>n\<bar> \<le> 53" by (simp add: bitlen_le_iff_power)
  then show ?thesis by (simp add: float64_def Let_def)
next
  case False
  assume "\<bar>n\<bar> \<le> 2 ^ 53"
  with False have a: "\<bar>n\<bar> = 2 ^ 53" by simp
  have b: "bitlen (2 ^ 53) = 54"
    using bitlen_twopow_add_eq [of 0 53] by simp
  have c: "sgn n * \<bar>n\<bar> = n" by (rule mult_sgn_abs)
  show ?thesis using a b c
    by (simp add: float64_def Let_def)
qed

lemma float64_large:
  assumes "2 ^ 53 \<le> n"
  shows "2 ^ 53 \<le> float64 n"
proof -
  have pos: "0 < n" using assms by (smt (verit) zero_less_power)
  have "\<not> n < 2 ^ 53" using assms by simp
  then have e: "53 < bitlen n" using bitlen_le_iff_power [of n 53] by simp
  define sh where "sh = nat (bitlen n - 53)"
  have sh: "1 \<le> sh" using e by (simp add: sh_def)
  have "nat (bitlen n - 1) = sh + 52" using e by (simp add: sh_def)
  then have "(2::int) ^ (sh + 52) \<le> n" using bitlen_bounds [OF pos] by simp
  then have h: "(2::int) ^ 52 * 2 ^ sh \<le> n" by (simp add: power_add mult.commute)
  have "((2::int) ^ 52 * 2 ^ sh) div 2 ^ sh \<le> n div 2 ^ sh"
    by (rule zdiv_mono1 [OF h]) simp
  then have q: "(2::int) ^ 52 \<le> n div 2 ^ sh" by simp
  have p2: "(2::int) \<le> 2 ^ sh" using sh
    by (metis one_le_numeral power_increasing power_one_right)
  define q' where
    "q' = (if 2 ^ (sh - 1) < n mod 2 ^ sh \<or> (n mod 2 ^ sh = 2 ^ (sh - 1) \<and> odd (n div 2 ^ sh))
           then n div 2 ^ sh + 1 else n div 2 ^ sh)"
  have q': "2 ^ 52 \<le> q'" using q by (simp add: q'_def)
  have "(2::int) ^ 52 * 2 \<le> q' * 2 ^ sh"
    using q' by (intro mult_mono [OF q' p2]) simp_all
  moreover have "float64 n = q' * 2 ^ sh"
    using e pos by (simp add: float64_def Let_def sh_def q'_def)
  ultimately show ?thesis by simp
qed

lemma cutoff_take:
  assumes "0 \<le> m" and "m \<le> 2 ^ 53 \<or> int (length s) \<le> 2 ^ 53"
  shows "cutoff s m = Inr (take (nat m) s)"
proof (cases "m \<le> 2 ^ 53")
  case True
  then have fm: "float64 m = m" using assms(1) by (simp add: float64_exact)
  show ?thesis
  proof (cases "int (length s) \<le> 2 ^ 53")
    case True
    then have "float64 (int (length s)) = int (length s)" by (simp add: float64_exact)
    then show ?thesis using fm assms(1)
      by (simp add: cutoff_def math_Min_def Let_def min_def)
  next
    case False
    then have "2 ^ 53 \<le> int (length s)" by simp
    then have "2 ^ 53 \<le> float64 (int (length s))" by (rule float64_large)
    then have "m \<le> float64 (int (length s))" using True by simp
    moreover have "m \<le> int (length s)" using True False by simp
    ultimately show ?thesis using fm assms(1)
      by (simp add: cutoff_def math_Min_def Let_def min_def)
  qed
next
  case False
  then have len: "int (length s) \<le> 2 ^ 53" using assms(2) by simp
  then have fl: "float64 (int (length s)) = int (length s)" by (simp add: float64_exact)
  have "2 ^ 53 \<le> m" using False by simp
  then have "2 ^ 53 \<le> float64 m" by (rule float64_large)
  then have "int (length s) \<le> float64 m" using len by simp
  moreover have "int (length s) \<le> m" using False len by simp
  ultimately show ?thesis using fl
    by (simp add: cutoff_def math_Min_def Let_def min_def)
qed


lemma cutoff_small: "0 \<le> m \<Longrightarrow> m \<le> 4000 \<Longrightarrow> cutoff s m = Inr (take (nat m) s)"
  by (rule cutoff_take) simp_all




subsection \<open>The severity table\<close>

text \<open>
  C3: the severity of the levels OK and Info is 5, of Warning 4, of Critical 1, and of
  every other level 0. The mapping is a total function; it has no error result.
\<close>

theorem C3_severity_table:
  "severity OK = 5 \<and> severity Info = 5 \<and> severity Warning = 4 \<and> severity Critical = 1
   \<and> (\<forall>n. severity (Unknown n) = 0)"
  by (simp add: severity_def)

subsection \<open>Replacing the configuration\<close>

lemma Update_one: "Update s [AnyConfig c] = (None, s\<lparr>configValue := c\<rparr>)"
  by (simp add: Update_def)

lemma Update_error:
  assumes "fst (Update s newConfig) \<noteq> None"
  shows "snd (Update s newConfig) = s"
  using assms by (auto simp: Update_def Let_def split: if_splits any.splits)

lemma Update_success:
  assumes "fst (Update s newConfig) = None"
  shows "\<exists>c. newConfig = [AnyConfig c]"
proof -
  from assms have l: "length newConfig = 1"
    by (auto simp: Update_def Let_def split: if_splits)
  then obtain v where v: "newConfig = [v]"
    by (cases newConfig) auto
  with assms show ?thesis
    by (cases v) (auto simp: Update_def)
qed

text \<open>
  C10: \<open>Update\<close> returns no error exactly when it is given one value and that value is a
  \<open>Config\<close>, which the service then holds; on every other call (a list of another length,
  a value of another type) it returns an error and the service is unchanged, so that
  \<open>config\<close> reads the configuration it held before.
\<close>

theorem C10_Update:
  "(fst (Update s newConfig) = None \<longleftrightarrow> (\<exists>c. newConfig = [AnyConfig c]))
   \<and> (fst (Update s newConfig) \<noteq> None \<longrightarrow>
        snd (Update s newConfig) = s \<and> config (snd (Update s newConfig)) = config s)
   \<and> (length newConfig \<noteq> 1 \<longrightarrow> fst (Update s newConfig) \<noteq> None)
   \<and> (\<forall>c. newConfig = [AnyConfig c] \<longrightarrow> config (snd (Update s newConfig)) = c)"
proof -
  have a: "fst (Update s newConfig) = None \<longleftrightarrow> (\<exists>c. newConfig = [AnyConfig c])"
    using Update_success [of s newConfig] by (auto simp: Update_one)
  have b: "fst (Update s newConfig) \<noteq> None \<longrightarrow>
        snd (Update s newConfig) = s \<and> config (snd (Update s newConfig)) = config s"
    using Update_error [of s newConfig] by simp
  have c: "length newConfig \<noteq> 1 \<longrightarrow> fst (Update s newConfig) \<noteq> None"
    by (simp add: Update_def Let_def)
  have d: "\<forall>c. newConfig = [AnyConfig c] \<longrightarrow> config (snd (Update s newConfig)) = c"
    by (simp add: Update_one config_def)
  show ?thesis using a b c d by blast
qed

theorem C10_Update_witness:
  "fst (Update (NewService cfg0) []) \<noteq> None
   \<and> config (snd (Update (NewService cfg0) [])) = cfg0
   \<and> fst (Update (NewService cfg0) [AnyString ''cfg'']) \<noteq> None
   \<and> config (snd (Update (NewService cfg0) [AnyString ''cfg''])) = cfg0
   \<and> fst (Update (NewService cfg0) [AnyConfig cfg0, AnyConfig cfg0]) \<noteq> None
   \<and> fst (Update (NewService cfg0) [AnyConfig (cfg0\<lparr>Enabled := False\<rparr>)]) = None
   \<and> config (snd (Update (NewService cfg0) [AnyConfig (cfg0\<lparr>Enabled := False\<rparr>)]))
       = cfg0\<lparr>Enabled := False\<rparr>"
  using C10_Update [of "NewService cfg0" "[]"]
    C10_Update [of "NewService cfg0" "[AnyString ''cfg'']"]
    C10_Update [of "NewService cfg0" "[AnyConfig cfg0, AnyConfig cfg0]"]
    C10_Update [of "NewService cfg0" "[AnyConfig (cfg0\<lparr>Enabled := False\<rparr>)]"]
  by (simp add: NewService_def config_def)

subsection \<open>Rendering and the alert record\<close>

lemma newAlert_eq:
  "newAlert source node metricType resource metricName messageKey sev message =
     Inr \<lparr>Alert.Source = take 100 source, Alert.Node = take 100 node,
          Alert.Type = take 100 metricType, Alert.Resource = take 100 resource,
          Alert.MetricName = take 100 metricName, Alert.MessageKey = take 1024 messageKey,
          Severity = Itoa sev, Description = take 4000 message\<rparr>"
  by (simp add: newAlert_def and_then_def usualCutoff_def cutoff_small)

lemma render_empty: "render env d name [] st = (Inr [], st)"
  by (simp add: render_def)

lemma render_parse_error:
  assumes "t \<noteq> []" and "template_Parse env name t = Inl err"
  shows "render env d name t st
           = (Inl err, st\<lparr>buffer := [], calls := calls st @ [TemplateParse name t]\<rparr>)"
  using assms by (simp add: render_def)

lemma render_parsed:
  assumes "t \<noteq> []" and "template_Parse env name t = Inr ti"
  shows "render env d name t st
           = (Inr (fst (template_Execute env ti d)),
              st\<lparr>buffer := fst (template_Execute env ti d),
                 calls := calls st @ [TemplateParse name t, TemplateExecute name]\<rparr>)"
  using assms by (simp add: render_def Let_def)

lemma render_cases:
  "render env d name t st = (Inr [], st) \<and> t = []
   \<or> (\<exists>err. t \<noteq> [] \<and> template_Parse env name t = Inl err
          \<and> render env d name t st
               = (Inl err, st\<lparr>buffer := [], calls := calls st @ [TemplateParse name t]\<rparr>))
   \<or> (\<exists>ti. t \<noteq> [] \<and> template_Parse env name t = Inr ti
          \<and> render env d name t st
               = (Inr (fst (template_Execute env ti d)),
                  st\<lparr>buffer := fst (template_Execute env ti d),
                     calls := calls st @ [TemplateParse name t, TemplateExecute name]\<rparr>))"
proof (cases "t = []")
  case True
  then show ?thesis by (simp add: render_empty)
next
  case False
  then show ?thesis
    by (cases "template_Parse env name t") (simp_all add: render_parse_error render_parsed)
qed

lemma render_fst_state: "fst (render env d name t st) = fst (render env d name t st')"
  using render_cases [of env d name t st] render_cases [of env d name t st']
  by auto

lemma render_requests: "requests (calls (snd (render env d name t st))) = requests (calls st)"
proof -
  have r: "requests (cs @ cs') = requests cs @ requests cs'" for cs cs'
    by (induction cs rule: requests.induct) simp_all
  show ?thesis
    using render_cases [of env d name t st] by (auto simp: r)
qed


lemma render_fst: "fst (render env d name t st) = rendered env d name t"
  unfolding rendered_def by (rule render_fst_state)

lemma rendered_empty: "rendered env d name [] = Inr []"
  by (simp add: rendered_def render_empty)

lemma rendered_parse_error:
  assumes "t \<noteq> []" and "template_Parse env name t = Inl err"
  shows "rendered env d name t = Inl err"
  using assms by (simp add: rendered_def render_parse_error)

lemma rendered_parsed:
  assumes "t \<noteq> []" and "template_Parse env name t = Inr ti"
  shows "rendered env d name t = Inr (fst (template_Execute env ti d))"
  using assms by (simp add: rendered_def render_parsed)

lemma requests_append: "requests (cs @ cs') = requests cs @ requests cs'"
  by (induction cs rule: requests.induct) simp_all

lemma preparePost_instance_requests:
  "requests (snd (preparePost_instance env s url alertID message level data hc)) = []"
  by (simp add: preparePost_instance_def Let_def split_beta render_requests newAlert_eq
        split: sum.splits)

text \<open>
  What \<open>preparePost_instance\<close> returns, without the state: the five rendered values in
  turn, the first error ending the call.
\<close>

lemma preparePost_instance_fst:
  "fst (preparePost_instance env s url alertID message level data hc) =
     (if \<not> Enabled (config s) then Inl (New ''service is not enabled'')
      else case url_Parse env (if url = [] then Config.URL (config s) else url) of
        Inl err \<Rightarrow> Inl err
      | Inr u \<Rightarrow>
          and_then (rendered env (newDataInfo alertID data) ''node'' (HandlerConfig.Node hc))
            (\<lambda>node.
          and_then (rendered env (newDataInfo alertID data) ''type'' (HandlerConfig.Type hc))
            (\<lambda>metricType.
          and_then (rendered env (newDataInfo alertID data) ''resource''
                      (HandlerConfig.Resource hc))
            (\<lambda>resource.
          and_then (rendered env (newDataInfo alertID data) ''metricName''
                      (HandlerConfig.MetricName hc))
            (\<lambda>metricName.
          and_then (rendered env (newDataInfo alertID data) ''messageKey''
                      (HandlerConfig.MessageKey hc))
            (\<lambda>messageKey.
             Inr (u, \<lparr>Alert.Source = take 100 (if HandlerConfig.Source hc = []
                                              then Config.Source (config s)
                                              else HandlerConfig.Source hc),
                      Alert.Node = take 100 node,
                      Alert.Type = take 100 metricType,
                      Alert.Resource = take 100 resource,
                      Alert.MetricName = take 100 metricName,
                      Alert.MessageKey = take 1024 (if messageKey = [] then alertID
                                                   else messageKey),
                      Severity = Itoa (severity level),
                      Description = take 4000 message\<rparr>)))))))"
  by (simp add: preparePost_instance_def Let_def split_beta render_fst newAlert_eq and_then_def
        split: sum.splits)

lemma preparePost_requests:
  "requests (snd (preparePost env s url alertID message level data hc)) = []"
  using preparePost_instance_requests [of env s url alertID message level data hc]
  by (auto simp: preparePost_def split: sum.splits prod.splits)

lemma preparePost_disabled:
  assumes "\<not> Enabled (config s)"
  shows "preparePost env s url alertID message level data hc
           = (Inl (New ''service is not enabled''), [])"
  using assms by (simp add: preparePost_def preparePost_instance_def)



lemma preparePost_fst_Inl:
  assumes "fst (preparePost_instance env s url alertID message level data hc) = Inl err"
  shows "fst (preparePost env s url alertID message level data hc) = Inl err"
  using assms by (auto simp: preparePost_def split: sum.splits prod.splits)

lemma Alert_preparePost_Inl:
  assumes "fst (preparePost env s url alertID message level data hc) = Inl err"
  shows "Alert env s url alertID message level data hc
           = (Some err, snd (preparePost env s url alertID message level data hc))"
  using assms by (auto simp: Alert_def split: sum.splits prod.splits)

subsection \<open>A disabled service\<close>

text \<open>
  C7: when the configuration has \<open>Enabled = False\<close>, the dispatch returns the error
  "service is not enabled" and has made no call at all: no template was parsed or
  executed and no HTTP request was sent.
\<close>

theorem C7_disabled_service:
  assumes "\<not> Enabled (config s)"
  shows "Alert env s url alertID message level data hc
           = (Some (New ''service is not enabled''), [])"
  using assms by (simp add: Alert_def preparePost_disabled)

theorem C7_disabled_service_witness:
  "\<not> Enabled (config (NewService (cfg0\<lparr>Enabled := False\<rparr>)))
   \<and> Alert (stub 201 (Inr [])) (NewService (cfg0\<lparr>Enabled := False\<rparr>))
        [] ''a1'' ''boom'' Critical data0 (hc0\<lparr>HandlerConfig.Node := ''{{''\<rparr>)
       = (Some (New ''service is not enabled''), [])"
proof -
  have h: "\<not> Enabled (config (NewService (cfg0\<lparr>Enabled := False\<rparr>)))"
    by (simp add: config_def NewService_def)
  show ?thesis using h C7_disabled_service [OF h] by simp
qed

subsection \<open>The payload scenario\<close>

lemma preparePost_scenario:
  assumes "url_Parse env ''https://sn.example/api'' = Inr u"
  shows \<open>preparePost env (NewService cfg0) [] ''a1'' ''boom'' Critical data hc0
           = (Inr (url_String env u,
                   ''{"source":"cfg-src","node":"","type":"","resource":"","metric_name":"","message_key":"a1","severity":"1","description":"boom"}''),
              [UrlParse ''https://sn.example/api''])\<close>
  using assms
  by (simp add: preparePost_def preparePost_instance_def NewService_def config_def cfg0_def
        hc0_def render_empty newAlert_eq severity_def Itoa_def digit_def json_Marshal_def
        json_string_def htmlSafe_def)

text \<open>
  C5: with the configuration \<open>cfg0\<close> (enabled, URL \<^verbatim>\<open>https://sn.example/api\<close>, source
  \<^verbatim>\<open>cfg-src\<close>), the empty handler options \<open>hc0\<close>, no URL override, the alert identifier
  \<^verbatim>\<open>a1\<close>, the message \<^verbatim>\<open>boom\<close> and the level Critical, \<open>preparePost\<close> returns as the body
  of the POST exactly the JSON object of the scenario, for any event data; the only call
  it has made is the parsing of the configured URL, which is assumed to succeed.
\<close>

theorem C5_payload_scenario:
  assumes "url_Parse env ''https://sn.example/api'' = Inr u"
  shows \<open>preparePost env (NewService cfg0) [] ''a1'' ''boom'' Critical data hc0
           = (Inr (url_String env u,
                   ''{"source":"cfg-src","node":"","type":"","resource":"","metric_name":"","message_key":"a1","severity":"1","description":"boom"}''),
              [UrlParse ''https://sn.example/api''])\<close>
  using assms by (rule preparePost_scenario)

theorem C5_payload_scenario_witness:
  \<open>url_Parse (stub 201 (Inr [])) ''https://sn.example/api'' = Inr ''https://sn.example/api''
   \<and> preparePost (stub 201 (Inr [])) (NewService cfg0) [] ''a1'' ''boom'' Critical data0 hc0
       = (Inr (''https://sn.example/api'',
               ''{"source":"cfg-src","node":"","type":"","resource":"","metric_name":"","message_key":"a1","severity":"1","description":"boom"}''),
          [UrlParse ''https://sn.example/api''])\<close>
proof -
  have h: "url_Parse (stub 201 (Inr [])) ''https://sn.example/api''
             = Inr ''https://sn.example/api''"
    by (simp add: stub_def)
  show ?thesis using h C5_payload_scenario [OF h, of data0] by (simp add: stub_def)
qed

subsection \<open>A response other than 201\<close>

lemma Alert_scenario:
  "Alert (stub status body) (NewService cfg0) [] ''a1'' ''boom'' Critical data0 hc0
     = (fst (checkResponse (stub status body) \<lparr>StatusCode = status, Response.Body = body\<rparr>),
        [UrlParse ''https://sn.example/api'', HttpDo request0]
        @ snd (checkResponse (stub status body) \<lparr>StatusCode = status, Response.Body = body\<rparr>))"
proof -
  have p: "preparePost (stub status body) (NewService cfg0) [] ''a1'' ''boom'' Critical data0 hc0
           = (Inr (''https://sn.example/api'', Request.Body request0),
              [UrlParse ''https://sn.example/api''])"
    using preparePost_scenario [of "stub status body" "''https://sn.example/api''" data0]
    by (simp add: stub_def request0_def)
  have u: "Config.Username (config (NewService cfg0)) = []"
    by (simp add: config_def NewService_def cfg0_def)
  have n: "NewRequest (stub status body) ''POST'' ''https://sn.example/api''
             (Request.Body request0) = Inr (request0\<lparr>Header := []\<rparr>)"
    by (simp add: NewRequest_def stub_def request0_def)
  have h: "Header_Add (request0\<lparr>Header := []\<rparr>) ''Content-Type'' ''application/json''
             = request0"
    by (simp add: Header_Add_def request0_def)
  have d: "client_Do (stub status body) request0
             = Inr \<lparr>StatusCode = status, Response.Body = body\<rparr>"
    by (simp add: stub_def)
  show ?thesis
    by (simp add: Alert_def p u n h d Let_def split_beta)
qed



subsection \<open>The message key\<close>

text \<open>
  C8, as stated: when the rendered message key is empty, the message key of the
  notification equals the alert identifier. The key passes through \<open>cutoff\<close> with the limit
  1024 like every other key, so an identifier of 1025 bytes arrives cut to 1024.
\<close>

theorem C8_long_alertID_truncated:
  "fst (preparePost_instance (stub 201 (Inr [])) (NewService cfg0) []
          (replicate 1025 (CHR ''a'')) ''boom'' Critical data0 hc0)
     = Inr (''https://sn.example/api'',
            \<lparr>Alert.Source = ''cfg-src'', Alert.Node = [], Alert.Type = [],
             Alert.Resource = [], Alert.MetricName = [],
             Alert.MessageKey = replicate 1024 (CHR ''a''), Severity = ''1'',
             Description = ''boom''\<rparr>)
   \<and> HandlerConfig.MessageKey hc0 = []
   \<and> replicate 1024 (CHR ''a'') \<noteq> replicate 1025 (CHR ''a'')"
  by (simp add: preparePost_instance_fst config_def NewService_def cfg0_def hc0_def stub_def
        rendered_empty and_then_def severity_def Itoa_def digit_def)

text \<open>
  C8, amended: when \<open>preparePost\<close> gets as far as the alert record and the rendered message
  key is empty (as it is when the template of the message key is empty), the message key
  of the record is the alert identifier cut to its first 1024 bytes, which is the
  identifier itself when it is no longer than that.
\<close>

theorem C8_messageKey_fallback:
  assumes "fst (preparePost_instance env s url alertID message level data hc) = Inr (u, a)"
    and "rendered env (newDataInfo alertID data) ''messageKey'' (HandlerConfig.MessageKey hc)
           = Inr []"
  shows "Alert.MessageKey a = take 1024 alertID
     \<and> (length alertID \<le> 1024 \<longrightarrow> Alert.MessageKey a = alertID)
     \<and> rendered env (newDataInfo alertID data) ''messageKey'' [] = Inr []"
proof -
  have "Alert.MessageKey a = take 1024 alertID"
    using assms
    by (auto simp: preparePost_instance_fst and_then_def split: if_splits sum.splits)
  then show ?thesis by (simp add: rendered_empty)
qed

theorem C8_messageKey_fallback_witness:
  "Alert.MessageKey
     \<lparr>Alert.Source = ''cfg-src'', Alert.Node = [], Alert.Type = [], Alert.Resource = [],
      Alert.MetricName = [], Alert.MessageKey = ''a1'', Severity = ''1'',
      Description = ''boom''\<rparr> = ''a1''
   \<and> fst (preparePost_instance (stub 201 (Inr [])) (NewService cfg0) [] ''a1'' ''boom''
            Critical data0 (hc0\<lparr>HandlerConfig.MessageKey := ''{{.Missing}}''\<rparr>))
       = Inr (''https://sn.example/api'',
              \<lparr>Alert.Source = ''cfg-src'', Alert.Node = [], Alert.Type = [],
               Alert.Resource = [], Alert.MetricName = [], Alert.MessageKey = ''a1'',
               Severity = ''1'', Description = ''boom''\<rparr>)"
proof -
  let ?env = "stub 201 (Inr []) :: (string, string) Env"
  let ?a = "\<lparr>Alert.Source = ''cfg-src'', Alert.Node = [], Alert.Type = [],
             Alert.Resource = [], Alert.MetricName = [], Alert.MessageKey = ''a1'',
             Severity = ''1'', Description = ''boom''\<rparr>"
  have r0: "rendered ?env (newDataInfo ''a1'' data0) ''messageKey'' ''{{.Missing}}'' = Inr []"
    by (simp add: rendered_def render_def stub_def Let_def)
  then have r: "rendered ?env (newDataInfo ''a1'' data0) ''messageKey''
             (HandlerConfig.MessageKey (hc0\<lparr>HandlerConfig.MessageKey := ''{{.Missing}}''\<rparr>))
           = Inr []"
    by simp
  have up: "url_Parse ?env x = Inr x" for x
    by (simp add: stub_def)
  have p: "fst (preparePost_instance ?env (NewService cfg0) [] ''a1'' ''boom'' Critical data0
             (hc0\<lparr>HandlerConfig.MessageKey := ''{{.Missing}}''\<rparr>))
           = Inr (''https://sn.example/api'', ?a)"
    by (simp add: preparePost_instance_fst r0 up config_def NewService_def cfg0_def hc0_def
          rendered_empty and_then_def severity_def Itoa_def digit_def)
  show ?thesis using C8_messageKey_fallback [OF p r] p by simp
qed

subsection \<open>Templates\<close>

lemma preparePost_instance_parse_error:
  assumes "(name, t) \<in> set [(''node'', HandlerConfig.Node hc), (''type'', HandlerConfig.Type hc),
                             (''resource'', HandlerConfig.Resource hc),
                             (''metricName'', HandlerConfig.MetricName hc),
                             (''messageKey'', HandlerConfig.MessageKey hc)]"
    and "t \<noteq> []" and "template_Parse env name t = Inl err"
  shows "\<exists>e. fst (preparePost_instance env s url alertID message level data hc) = Inl e"
proof -
  have r: "rendered env (newDataInfo alertID data) name t = Inl err"
    by (rule rendered_parse_error [OF assms(2) assms(3)])
  show ?thesis
    using assms(1) r
    by (auto simp: preparePost_instance_fst and_then_def split: sum.splits)
qed

text \<open>
  C9: for a field whose template is the empty string, \<open>render\<close> returns the empty string
  and no error and leaves the state as it was: nothing is parsed or executed. A template
  that is not empty is parsed; when parsing fails, \<open>render\<close> returns that error, and when
  this happens to one of the five fields the dispatch returns an error and sends no HTTP
  request.
\<close>

theorem C9_templates:
  "render env d name [] st = (Inr [], st)
   \<and> (t \<noteq> [] \<longrightarrow> TemplateParse name t \<in> set (calls (snd (render env d name t st))))
   \<and> (t \<noteq> [] \<and> template_Parse env name t = Inl err \<longrightarrow>
        fst (render env d name t st) = Inl err)
   \<and> ((name, t) \<in> set [(''node'', HandlerConfig.Node hc), (''type'', HandlerConfig.Type hc),
                          (''resource'', HandlerConfig.Resource hc),
                          (''metricName'', HandlerConfig.MetricName hc),
                          (''messageKey'', HandlerConfig.MessageKey hc)]
        \<and> t \<noteq> [] \<and> template_Parse env name t = Inl err \<longrightarrow>
        fst (Alert env s url alertID message level data hc) \<noteq> None
        \<and> requests (snd (Alert env s url alertID message level data hc)) = [])"
proof -
  have 1: "render env d name [] st = (Inr [], st)" by (rule render_empty)
  have 2: "t \<noteq> [] \<longrightarrow> TemplateParse name t \<in> set (calls (snd (render env d name t st)))"
    using render_cases [of env d name t st] by auto
  have 3: "t \<noteq> [] \<and> template_Parse env name t = Inl err \<longrightarrow>
        fst (render env d name t st) = Inl err"
    by (simp add: render_parse_error)
  have 4: "fst (Alert env s url alertID message level data hc) \<noteq> None
        \<and> requests (snd (Alert env s url alertID message level data hc)) = []"
    if m: "(name, t) \<in> set [(''node'', HandlerConfig.Node hc), (''type'', HandlerConfig.Type hc),
                          (''resource'', HandlerConfig.Resource hc),
                          (''metricName'', HandlerConfig.MetricName hc),
                          (''messageKey'', HandlerConfig.MessageKey hc)]"
      and t: "t \<noteq> []" and p: "template_Parse env name t = Inl err"
  proof -
    obtain e where "fst (preparePost_instance env s url alertID message level data hc) = Inl e"
      using preparePost_instance_parse_error [OF m t p] by blast
    then have "fst (preparePost env s url alertID message level data hc) = Inl e"
      by (rule preparePost_fst_Inl)
    then have "Alert env s url alertID message level data hc
                 = (Some e, snd (preparePost env s url alertID message level data hc))"
      by (rule Alert_preparePost_Inl)
    then show ?thesis by (simp add: preparePost_requests)
  qed
  show ?thesis using 1 2 3 4 by blast
qed

theorem C9_templates_witness:
  "render (stub 201 (Inr [])) (newDataInfo ''a1'' data0) ''resource'' []
       \<lparr>buffer = [], calls = [UrlParse ''https://sn.example/api'']\<rparr>
     = (Inr [], \<lparr>buffer = [], calls = [UrlParse ''https://sn.example/api'']\<rparr>)
   \<and> fst (render (stub 201 (Inr [])) (newDataInfo ''a1'' data0) ''resource'' ''{{''
            \<lparr>buffer = [], calls = [UrlParse ''https://sn.example/api'']\<rparr>)
       = Inl (New ''template: unclosed action'')
   \<and> fst (Alert (stub 201 (Inr [])) (NewService cfg0) [] ''a1'' ''boom'' Critical data0
            (hc0\<lparr>HandlerConfig.Resource := ''{{''\<rparr>)) \<noteq> None
   \<and> requests (snd (Alert (stub 201 (Inr [])) (NewService cfg0) [] ''a1'' ''boom'' Critical
                       data0 (hc0\<lparr>HandlerConfig.Resource := ''{{''\<rparr>))) = []"
proof -
  let ?env = "stub 201 (Inr []) :: (string, string) Env"
  have p: "template_Parse ?env ''resource'' ''{{'' = Inl (New ''template: unclosed action'')"
    by (simp add: stub_def)
  have m: "(''resource'', ''{{'')
             \<in> set [(''node'', HandlerConfig.Node (hc0\<lparr>HandlerConfig.Resource := ''{{''\<rparr>)),
                    (''type'', HandlerConfig.Type (hc0\<lparr>HandlerConfig.Resource := ''{{''\<rparr>)),
                    (''resource'', HandlerConfig.Resource (hc0\<lparr>HandlerConfig.Resource := ''{{''\<rparr>)),
                    (''metricName'', HandlerConfig.MetricName (hc0\<lparr>HandlerConfig.Resource := ''{{''\<rparr>)),
                    (''messageKey'', HandlerConfig.MessageKey (hc0\<lparr>HandlerConfig.Resource := ''{{''\<rparr>))]"
    by simp
  have n: "''{{'' \<noteq> []" by simp
  show ?thesis
    using C9_templates [of ?env "newDataInfo ''a1'' data0" "''resource''"
        "\<lparr>buffer = [], calls = [UrlParse ''https://sn.example/api'']\<rparr>" "''{{''"
        "New ''template: unclosed action''" "hc0\<lparr>HandlerConfig.Resource := ''{{''\<rparr>"
        "NewService cfg0" "[]" "''a1''" "''boom''" Critical data0] p m n
    by simp
qed

subsection \<open>Credentials\<close>

lemma Alert_ignores_handler_credentials:
  "Alert env s url alertID message level data
     (hc\<lparr>HandlerConfig.Username := username, HandlerConfig.Password := password\<rparr>)
   = Alert env s url alertID message level data hc"
proof -
  have "preparePost_instance env s url alertID message level data
          (hc\<lparr>HandlerConfig.Username := username, HandlerConfig.Password := password\<rparr>)
        = preparePost_instance env s url alertID message level data hc"
    by (simp add: preparePost_instance_def Let_def cong: sum.case_cong prod.case_cong if_cong)
  then show ?thesis by (simp add: Alert_def preparePost_def)
qed

text \<open>
  C1: the credentials of the request are the configuration's, whatever the handler
  options hold: \<open>Alert\<close> never reads \<^verbatim>\<open>hc.Username\<close> and \<^verbatim>\<open>hc.Password\<close>. With the
  configuration's credentials \<^verbatim>\<open>cfg-user\<close> and \<^verbatim>\<open>cfg-pass\<close> and the handler's \<^verbatim>\<open>alice\<close> and
  \<^verbatim>\<open>secret\<close>, the one request sent carries the configuration's; with no credentials in
  the configuration and the same handler options, the request is sent without any.
\<close>

theorem C1_handler_credentials_ignored:
  "map BasicAuth (requests (snd (Alert (stub 201 (Inr []))
        (NewService (cfg0\<lparr>Config.Username := ''cfg-user'', Config.Password := ''cfg-pass''\<rparr>))
        [] ''a1'' ''boom'' Critical data0
        (hc0\<lparr>HandlerConfig.Username := ''alice'', HandlerConfig.Password := ''secret''\<rparr>))))
     = [Some (''cfg-user'', ''cfg-pass'')]
   \<and> map BasicAuth (requests (snd (Alert (stub 201 (Inr [])) (NewService cfg0)
        [] ''a1'' ''boom'' Critical data0
        (hc0\<lparr>HandlerConfig.Username := ''alice'', HandlerConfig.Password := ''secret''\<rparr>))))
     = [None]"
proof -
  let ?env = "stub 201 (Inr []) :: (string, string) Env"
  let ?c = "cfg0\<lparr>Config.Username := ''cfg-user'', Config.Password := ''cfg-pass''\<rparr>"
  have n: "http_NewRequest_error ?env m u = None" for m u by (simp add: stub_def)
  have d: "client_Do ?env r = Inr \<lparr>StatusCode = 201, Response.Body = Inr []\<rparr>" for r
    by (simp add: stub_def)
  have c: "Config.Username (config (NewService ?c)) = ''cfg-user''"
    "Config.Password (config (NewService ?c)) = ''cfg-pass''"
    "Config.Username (config (NewService cfg0)) = []"
    by (simp_all add: config_def NewService_def cfg0_def)
  have q: "requests (cs @ cs') = requests cs @ requests cs'" for cs cs'
    by (rule requests_append)
  have pp: "preparePost ?env (NewService ?c) [] ''a1'' ''boom'' Critical data0 hc0
            = preparePost ?env (NewService cfg0) [] ''a1'' ''boom'' Critical data0 hc0"
    by (simp add: preparePost_def preparePost_instance_def config_def NewService_def Let_def
          cong: sum.case_cong prod.case_cong if_cong)
  have p0: "preparePost ?env (NewService cfg0) [] ''a1'' ''boom'' Critical data0 hc0
            = (Inr (''https://sn.example/api'', Request.Body request0),
               [UrlParse ''https://sn.example/api''])"
    using preparePost_scenario [of ?env "''https://sn.example/api''" data0]
    by (simp add: stub_def request0_def)
  have 1: "map BasicAuth (requests (snd (Alert ?env (NewService ?c) [] ''a1'' ''boom'' Critical
             data0 hc0))) = [Some (''cfg-user'', ''cfg-pass'')]"
    by (simp add: Alert_def pp p0 Let_def n d c q NewRequest_def Header_Add_def
          SetBasicAuth_def checkResponse_def)
  have 2: "map BasicAuth (requests (snd (Alert ?env (NewService cfg0) [] ''a1'' ''boom''
             Critical data0 hc0))) = [None]"
    by (simp add: Alert_scenario checkResponse_def request0_def)
  show ?thesis using 1 2 by (simp add: Alert_ignores_handler_credentials)
qed

subsection \<open>Errors of template execution\<close>

text \<open>
  C2: an error that \<^verbatim>\<open>Execute\<close> returns is dropped. The template \<^verbatim>\<open>{{.Missing}}\<close> for the
  node fails at execution in the stub engine; \<open>render\<close> returns what was written so far
  and no error, and the dispatch goes on to send the request and returns nil.
\<close>

theorem C2_execute_error_dropped:
  "snd (template_Execute (stub 201 (Inr [])) ''{{.Missing}}'' (newDataInfo ''a1'' data0))
     = Some (New ''template: can't evaluate field Missing'')
   \<and> render (stub 201 (Inr [])) (newDataInfo ''a1'' data0) ''node'' ''{{.Missing}}''
        \<lparr>buffer = [], calls = []\<rparr>
     = (Inr [], \<lparr>buffer = [],
                 calls = [TemplateParse ''node'' ''{{.Missing}}'', TemplateExecute ''node'']\<rparr>)
   \<and> fst (Alert (stub 201 (Inr [])) (NewService cfg0) [] ''a1'' ''boom'' Critical data0
            (hc0\<lparr>HandlerConfig.Node := ''{{.Missing}}''\<rparr>)) = None
   \<and> length (requests (snd (Alert (stub 201 (Inr [])) (NewService cfg0) [] ''a1'' ''boom''
                Critical data0 (hc0\<lparr>HandlerConfig.Node := ''{{.Missing}}''\<rparr>)))) = 1"
proof -
  let ?env = "stub 201 (Inr []) :: (string, string) Env"
  let ?hc = "hc0\<lparr>HandlerConfig.Node := ''{{.Missing}}''\<rparr>"
  have 1: "snd (template_Execute ?env ''{{.Missing}}'' (newDataInfo ''a1'' data0))
             = Some (New ''template: can't evaluate field Missing'')"
    by (simp add: stub_def)
  have 2: "render ?env (newDataInfo ''a1'' data0) ''node'' ''{{.Missing}}''
             \<lparr>buffer = [], calls = []\<rparr>
           = (Inr [], \<lparr>buffer = [],
                 calls = [TemplateParse ''node'' ''{{.Missing}}'', TemplateExecute ''node'']\<rparr>)"
    by (simp add: render_def stub_def Let_def)
  have r: "render ?env dd ''node'' ''{{.Missing}}'' st
           = (Inr [], st\<lparr>buffer := [],
                 calls := calls st @ [TemplateParse ''node'' ''{{.Missing}}'',
                                      TemplateExecute ''node'']\<rparr>)" for dd st
    by (simp add: render_def stub_def Let_def)
  have up: "url_Parse ?env x = Inr x" "url_String ?env x = x" for x
    by (simp_all add: stub_def)
  have n: "http_NewRequest_error ?env m u = None" for m u by (simp add: stub_def)
  have d: "client_Do ?env rq = Inr \<lparr>StatusCode = 201, Response.Body = Inr []\<rparr>" for rq
    by (simp add: stub_def)
  have A: "Alert ?env (NewService cfg0) [] ''a1'' ''boom'' Critical data0 ?hc
           = (None, snd (Alert ?env (NewService cfg0) [] ''a1'' ''boom'' Critical data0 ?hc))
         \<and> length (requests (snd (Alert ?env (NewService cfg0) [] ''a1'' ''boom'' Critical
                       data0 ?hc))) = 1"
    by (simp add: Alert_def preparePost_def preparePost_instance_def r up n d render_empty
          newAlert_eq json_Marshal_def NewRequest_def checkResponse_def Let_def
          config_def NewService_def cfg0_def hc0_def requests_append)
  show ?thesis using 1 2 A by (metis fst_conv)
qed

end
